theory Spec2Isabelle
  imports Main
begin

section \<open>Data model of access.go\<close>

text \<open>
  Go strings and byte slices are byte sequences; they are modelled by \<open>string\<close>
  (a list of characters). A nil byte slice returned by a bucket lookup is \<open>None\<close>.
\<close>

type_synonym bytes = string

text \<open>
  A Go \<open>interface{}\<close> value as it occurs in claim maps and in the configuration
  cache: the nil interface, an \<open>int64\<close>, a \<open>string\<close>, or a value of some other
  dynamic type (identified by a tag).
\<close>

datatype iface = INil | IInt64 int | IString string | IOther string

type_synonym claims = "string \<rightharpoonup> iface"

text \<open>
  Errors are values. Every \<open>fmt.Errorf\<close> of the source is one constructor (the
  message is given beside it); errors that come from a collaborator are
  \<open>External\<close>, and the errors of the key-value store and of the standard library
  that the source passes on keep their Go names.
\<close>

datatype error =
    KeyEmpty                            \<comment> \<open>key must not be empty\<close>
  | PasswordEmpty                       \<comment> \<open>password must not be empty\<close>
  | FailedToGetBucket string            \<comment> \<open>failed to get bucket %s\<close>
  | FailedToUpdateGrant string error    \<comment> \<open>failed to update APIAccess grant for %s, %v\<close>
  | FailedToMarshal error               \<comment> \<open>failed to marshal APIAccess to json, %v\<close>
  | UserNotAuthorized                   \<comment> \<open>User Not Authorized\<close>
  | EmailActivelyInUse                  \<comment> \<open>email already actively in use\<close>
  | EmailPendingInUse                   \<comment> \<open>email already pending in use\<close>
  | PendingKeyEmpty                     \<comment> \<open>Pending: key must not be empty\<close>
  | PendingFailedToGetBucket string     \<comment> \<open>Pending: failed to get bucket %s\<close>
  | PendingEmailInUse                   \<comment> \<open>Pending: email already in use\<close>
  | FailedToGetBucketToUpdate string    \<comment> \<open>failed to get %s bucket to update grant\<close>
  | FailedToGetAccessGrant error        \<comment> \<open>failed to get access grant to update grant, %v\<close>
  | UnauthorizedAttempt string          \<comment> \<open>unauthorized attempt to update grant for %s\<close>
  | UnrecognizedTokenStore              \<comment> \<open>unrecognized token store\<close>
  | ClaimCollision string               \<comment> \<open>custom Config claim [%s] collides with internal claim [%s], ...\<close>
  | ErrNoCookie                         \<comment> \<open>http.ErrNoCookie\<close>
  | UnexpectedEndOfJSON                 \<comment> \<open>json.Unmarshal on empty input\<close>
  | ErrKeyRequired                      \<comment> \<open>bolt.ErrKeyRequired\<close>
  | ErrKeyTooLarge                      \<comment> \<open>bolt.ErrKeyTooLarge\<close>
  | ErrValueTooLarge                    \<comment> \<open>bolt.ErrValueTooLarge\<close>
  | External string                     \<comment> \<open>an error returned by a collaborator\<close>

text \<open>A run-time panic is not an error value; it is a result of its own.\<close>

datatype panic =
    InterfaceConversion    \<comment> \<open>a failed single-value type assertion \<open>x.(string)\<close>\<close>
  | UnexportedField        \<comment> \<open>\<open>reflect.Value.Interface\<close> on a value obtained from an unexported field\<close>

text \<open>
  \<open>user.User\<close> of the identity collaborator, with the fields access.go reads,
  and the \<open>APIAccess\<close> struct of access.go.
\<close>

record user =
  Email :: string
  Hash :: string
  Salt :: string

record APIAccess =
  Key :: string
  Hash :: string
  Salt :: string
  Token :: string

text \<open>
  \<open>reqHeaderOrHTTPCookie\<close> is an empty interface; the source only ever switches
  on the dynamic type of the value: \<open>http.Header\<close>, \<open>http.Cookie\<close>, or anything else.
\<close>

datatype reqHeaderOrHTTPCookie = HTTPHeader | HTTPCookie | OtherStore

text \<open>
  \<open>Config\<close>. \<open>ExpireAfter\<close> is a \<open>time.Duration\<close>, a number of nanoseconds.
  \<open>CustomClaims\<close> is a Go map; it is given as the list of its entries in the
  order in which the \<open>range\<close> loop of \<open>setToken\<close> visits them. The
  \<open>ResponseWriter\<close> the configuration points to is mutable state and lives in
  the \<open>world\<close> below.
\<close>

record Config =
  ExpireAfter :: int
  TokenStore :: reqHeaderOrHTTPCookie
  CustomClaims :: "(string \<times> iface) list"
  SecureCookie :: bool

text \<open>\<open>http.Cookie\<close>, with the fields \<open>setToken\<close> sets; \<open>Expires\<close> is a time in nanoseconds.\<close>

record Cookie =
  Name :: string
  Value :: string
  Expires :: int
  Path :: string
  HttpOnly :: bool
  Secure :: bool

text \<open>
  The state behind an \<open>http.ResponseWriter\<close>: the response header (a map from a
  header name to the values added under it), the cookies handed to
  \<open>http.SetCookie\<close> (whose serialisation into a header line is the standard
  library's), the status written by \<open>WriteHeader\<close> and the body written so far.
\<close>

record ResponseWriter =
  Header :: "string \<Rightarrow> string list"
  SetCookies :: "Cookie list"
  Status :: "int option"
  Body :: bytes

text \<open>
  \<open>http.Request\<close>, with what access.go reads from it: the request header, the
  cookies the request carries (name and value, in order), and \<open>RemoteAddr\<close>.
\<close>

record Request =
  ReqHeader :: "string \<Rightarrow> string list"
  ReqCookies :: "(string \<times> string) list"
  RemoteAddr :: string

text \<open>
  The bolt database: a map from bucket names to buckets, a bucket a map from keys
  to values. \<open>tx.Bucket\<close> of a name that has no bucket is nil (\<open>None\<close>).
\<close>

type_synonym bucket = "string \<rightharpoonup> bytes"
type_synonym db = "string \<rightharpoonup> bucket"

text \<open>The mutable state the package works on: the database and the response writer.\<close>

record world =
  store :: db
  writer :: ResponseWriter

text \<open>
  The collaborators of access.go, none of which is part of the package: the
  identity package (\<open>user.New\<close>, \<open>user.IsUser\<close>, \<open>user.IsValid\<close>), the token codec
  (\<open>jwt.New\<close>, \<open>jwt.Passes\<close>, \<open>jwt.GetClaims\<close>), \<open>encoding/json\<close>, the clock
  (\<open>time.Now\<close>, in nanoseconds since the epoch) and the configuration cache
  (\<open>db.ConfigCache\<close>). They are parameters of the model. So is the declaration
  of the struct \<open>http.Request\<close>, which \<open>GateKeeper\<close> walks by reflection:
  \<open>Request_fields\<close> lists its fields in the order of the declaration, each
  with its name and whether it is exported.
\<close>

record collab =
  user_New :: "string \<Rightarrow> string \<Rightarrow> error + user"
  user_IsUser :: "user \<Rightarrow> string \<Rightarrow> bool"
  user_IsValid :: "Request \<Rightarrow> bool"
  jwt_New :: "claims \<Rightarrow> error + string"
  jwt_Passes :: "string \<Rightarrow> bool"
  jwt_GetClaims :: "string \<Rightarrow> claims"
  json_Marshal :: "user \<Rightarrow> error + bytes"
  json_Unmarshal :: "bytes \<Rightarrow> error + APIAccess"
  time_Now :: int
  ConfigCache :: "string \<Rightarrow> iface"
  Request_fields :: "(string \<times> bool) list"

section \<open>Constants\<close>

definition apiAccessStore :: string where
  "apiAccessStore = ''__apiAccess''"

definition apiPendingUserStore :: string where
  "apiPendingUserStore = ''__apiPending''"

definition apiAccessCookie :: string where
  "apiAccessCookie = ''_apiAccessToken''"

definition StatusUnauthorized :: int where
  "StatusUnauthorized = 401"

section \<open>The key-value store\<close>

text \<open>
  \<open>db.Store().Update\<close> runs its function in a read-write transaction: the
  changes are committed when the function returns nil and rolled back when it
  returns an error, which \<open>Update\<close> then returns. \<open>db.Store().View\<close> runs its
  function on the database read-only. (A failure of the commit itself, an I/O
  error of the store, is outside the model.)
\<close>

definition Update :: "(db \<Rightarrow> error + db) \<Rightarrow> db \<Rightarrow> error option \<times> db" where
  "Update fn d = (case fn d of Inl e \<Rightarrow> (Some e, d) | Inr d' \<Rightarrow> (None, d'))"

definition View :: "(db \<Rightarrow> error option) \<Rightarrow> db \<Rightarrow> error option" where
  "View fn d = fn d"

definition MaxKeySize :: nat where
  "MaxKeySize = 32768"

definition MaxValueSize :: nat where
  "MaxValueSize = 2 ^ 31 - 2"

text \<open>
  \<open>b.Put\<close> on the bucket \<open>b\<close> named \<open>name\<close> of the transaction: bolt rejects an
  empty key, a key longer than \<open>MaxKeySize\<close> and a value longer than
  \<open>MaxValueSize\<close>, and otherwise sets the key. \<open>b.Delete\<close> removes the key.
\<close>

definition Put :: "db \<Rightarrow> string \<Rightarrow> bucket \<Rightarrow> string \<Rightarrow> bytes \<Rightarrow> error + db" where
  "Put tx name b k v =
     (if k = [] then Inl ErrKeyRequired
      else if MaxKeySize < length k then Inl ErrKeyTooLarge
      else if MaxValueSize < length v then Inl ErrValueTooLarge
      else Inr (tx(name \<mapsto> b(k \<mapsto> v))))"

definition Delete :: "db \<Rightarrow> string \<Rightarrow> bucket \<Rightarrow> string \<Rightarrow> db" where
  "Delete tx name b k = tx(name \<mapsto> b(k := None))"

section \<open>Token transport\<close>

text \<open>\<open>http.Header.Get\<close>: the first value under the name, or the empty string.\<close>

definition Header_Get :: "(string \<Rightarrow> string list) \<Rightarrow> string \<Rightarrow> string" where
  "Header_Get h k = (case h k of [] \<Rightarrow> [] | v # _ \<Rightarrow> v)"

text \<open>\<open>http.Header.Add\<close> on the response header: appends the value under the name.\<close>

definition Header_Add :: "ResponseWriter \<Rightarrow> string \<Rightarrow> string \<Rightarrow> ResponseWriter" where
  "Header_Add rw k v = rw\<lparr>Header := (Header rw)(k := Header rw k @ [v])\<rparr>"

definition SetCookie :: "ResponseWriter \<Rightarrow> Cookie \<Rightarrow> ResponseWriter" where
  "SetCookie rw ck = rw\<lparr>SetCookies := SetCookies rw @ [ck]\<rparr>"

text \<open>\<open>req.Cookie(name)\<close>: the first cookie of that name, or \<open>http.ErrNoCookie\<close>.\<close>

definition Request_Cookie :: "Request \<Rightarrow> string \<Rightarrow> error + string" where
  "Request_Cookie req name =
     (case find (\<lambda>ck. fst ck = name) (ReqCookies req) of
        None \<Rightarrow> Inl ErrNoCookie
      | Some ck \<Rightarrow> Inr (snd ck))"

text \<open>\<open>strings.TrimPrefix\<close>.\<close>

definition TrimPrefix :: "string \<Rightarrow> string \<Rightarrow> string" where
  "TrimPrefix s p = (if take (length p) s = p then drop (length p) s else s)"

text \<open>\<open>time.Time.Unix\<close>: whole seconds since the epoch of a time given in nanoseconds.\<close>

definition Unix :: "int \<Rightarrow> int" where
  "Unix t = t div 1000000000"

definition getToken :: "Request \<Rightarrow> reqHeaderOrHTTPCookie \<Rightarrow> error + string" where
  "getToken req tokenStore =
     (case tokenStore of
        HTTPCookie \<Rightarrow>
          (case Request_Cookie req apiAccessCookie of
             Inl err \<Rightarrow> Inl err
           | Inr v \<Rightarrow> Inr v)
      | HTTPHeader \<Rightarrow>
          (let bearer = Header_Get (ReqHeader req) ''Authorization''
           in Inr (TrimPrefix bearer ''Bearer ''))
      | OtherStore \<Rightarrow> Inl UnrecognizedTokenStore)"

text \<open>
  The \<open>range\<close> loop of \<open>setToken\<close> over the custom claims: a custom key that is
  already in the claim map stops the loop with an error, any other is added.
\<close>

fun mergeCustomClaims :: "claims \<Rightarrow> (string \<times> iface) list \<Rightarrow> error + claims" where
  "mergeCustomClaims claims [] = Inr claims"
| "mergeCustomClaims claims ((k, v) # rest) =
     (if claims k \<noteq> None then Inl (ClaimCollision k)
      else mergeCustomClaims (claims(k \<mapsto> v)) rest)"

text \<open>
  The first part of \<open>setToken\<close>, up to the call of \<open>jwt.New\<close>: the claim set of the
  token, with \<open>exp\<close> the expiry time in Unix seconds and \<open>access\<close> the key.
\<close>

definition tokenClaims :: "collab \<Rightarrow> APIAccess \<Rightarrow> Config \<Rightarrow> error + claims" where
  "tokenClaims c a cfg =
     (let exp = time_Now c + ExpireAfter cfg
      in mergeCustomClaims [''exp'' \<mapsto> IInt64 (Unix exp), ''access'' \<mapsto> IString (Key a)]
           (CustomClaims cfg))"

text \<open>
  \<open>setToken\<close> returns its error, the receiver (whose \<open>Token\<close> it sets) and the
  response writer (to which it adds the header or the cookie).
\<close>

definition setToken ::
  "collab \<Rightarrow> APIAccess \<Rightarrow> Config \<Rightarrow> ResponseWriter \<Rightarrow> error option \<times> APIAccess \<times> ResponseWriter" where
  "setToken c a cfg rw =
     (let exp = time_Now c + ExpireAfter cfg
      in case tokenClaims c a cfg of
           Inl err \<Rightarrow> (Some err, a, rw)
         | Inr claims \<Rightarrow>
             (case jwt_New c claims of
                Inl err \<Rightarrow> (Some err, a, rw)
              | Inr token \<Rightarrow>
                  (let a = a\<lparr>Token := token\<rparr>
                   in case TokenStore cfg of
                        HTTPHeader \<Rightarrow>
                          (None, a, Header_Add rw ''Authorization'' (''Bearer '' @ token))
                      | HTTPCookie \<Rightarrow>
                          (None, a, SetCookie rw
                             \<lparr>Name = apiAccessCookie, Value = token, Expires = exp,
                              Path = ''/'', HttpOnly = True, Secure = SecureCookie cfg\<rparr>)
                      | OtherStore \<Rightarrow> (Some UnrecognizedTokenStore, a, rw))))"

section \<open>Grants\<close>

text \<open>
  \<open>json.Unmarshal\<close> of a stored value into a fresh \<open>APIAccess\<close>: empty input (a
  nil slice, when the key is absent) is a syntax error; anything else is the
  codec's business. The stored value is taken not to be the JSON \<open>null\<close>.
\<close>

definition Unmarshal :: "collab \<Rightarrow> bytes option \<Rightarrow> error + APIAccess" where
  "Unmarshal c j =
     (case j of
        None \<Rightarrow> Inl UnexpectedEndOfJSON
      | Some js \<Rightarrow> if js = [] then Inl UnexpectedEndOfJSON else json_Unmarshal c js)"

text \<open>
  \<open>updateGrant\<close> reads the grant in a read-only transaction of its own, which
  sees the committed database. \<open>Grant\<close> and \<open>Login\<close> call it inside their
  transaction before anything is written there, so it is given that state.
\<close>

definition updateGrant :: "collab \<Rightarrow> string \<Rightarrow> string \<Rightarrow> Config \<Rightarrow> db \<Rightarrow> error option" where
  "updateGrant c key password cfg d =
     (case (case d apiAccessStore of
              None \<Rightarrow> Inl (FailedToGetBucketToUpdate apiAccessStore)
            | Some b \<Rightarrow> Unmarshal c (b key)) of
        Inl err \<Rightarrow> Some (FailedToGetAccessGrant err)
      | Inr apiAccess \<Rightarrow>
          (let usr = \<lparr>Email = Key apiAccess, Hash = Hash apiAccess, Salt = Salt apiAccess\<rparr>
           in if \<not> user_IsUser c usr password
              then Some (UnauthorizedAttempt (Key apiAccess))
              else None))"

text \<open>The two transactions of \<open>Grant\<close>: storing the grant, and clearing the pending entry.\<close>

definition Grant_put :: "collab \<Rightarrow> string \<Rightarrow> string \<Rightarrow> Config \<Rightarrow> user \<Rightarrow> APIAccess \<Rightarrow> db \<Rightarrow> error + db" where
  "Grant_put c key password cfg u apiAccess tx =
     (case tx apiAccessStore of
        None \<Rightarrow> Inl (FailedToGetBucket apiAccessStore)
      | Some b \<Rightarrow>
          (case (if b (Key apiAccess) \<noteq> None then updateGrant c key password cfg tx else None) of
             Some err \<Rightarrow> Inl (FailedToUpdateGrant (Key apiAccess) err)
           | None \<Rightarrow>
               (case json_Marshal c u of
                  Inl err \<Rightarrow> Inl (FailedToMarshal err)
                | Inr j \<Rightarrow> Put tx apiAccessStore b (Key apiAccess) j)))"

definition Grant_clear :: "APIAccess \<Rightarrow> db \<Rightarrow> error + db" where
  "Grant_clear apiAccess tx =
     (case tx apiPendingUserStore of
        None \<Rightarrow> Inl (FailedToGetBucket apiPendingUserStore)
      | Some b \<Rightarrow>
          if b (Key apiAccess) \<noteq> None
          then Inr (Delete tx apiPendingUserStore b (Key apiAccess))
          else Inr tx)"

text \<open>
  \<open>Grant\<close>. The result of the first transaction is assigned to \<open>err\<close> and the
  result of the second is assigned to the same variable before it is read.
\<close>

definition Grant ::
  "collab \<Rightarrow> string \<Rightarrow> string \<Rightarrow> Config \<Rightarrow> world \<Rightarrow> (error + APIAccess) \<times> world" where
  "Grant c key password cfg w =
     (if key = [] then (Inl KeyEmpty, w)
      else if password = [] then (Inl PasswordEmpty, w)
      else case user_New c key password of
             Inl err \<Rightarrow> (Inl err, w)
           | Inr u \<Rightarrow>
               (case setToken c \<lparr>Key = Email u, Hash = user.Hash u, Salt = user.Salt u, Token = []\<rparr>
                       cfg (writer w) of
                  (Some err, apiAccess, rw) \<Rightarrow> (Inl err, w\<lparr>writer := rw\<rparr>)
                | (None, apiAccess, rw) \<Rightarrow>
                    (let (err, d) = Update (Grant_put c key password cfg u apiAccess) (store w);
                         (err, d) = Update (Grant_clear apiAccess) d
                     in case err of
                          Some e \<Rightarrow> (Inl e, \<lparr>store = d, writer = rw\<rparr>)
                        | None \<Rightarrow> (Inr apiAccess, \<lparr>store = d, writer = rw\<rparr>))))"

text \<open>The transaction of \<open>Login\<close>; it writes nothing.\<close>

definition Login_check :: "collab \<Rightarrow> string \<Rightarrow> string \<Rightarrow> Config \<Rightarrow> APIAccess \<Rightarrow> db \<Rightarrow> error + db" where
  "Login_check c key password cfg apiAccess tx =
     (case tx apiAccessStore of
        None \<Rightarrow> Inl (FailedToGetBucket apiAccessStore)
      | Some b \<Rightarrow>
          if b (Key apiAccess) \<noteq> None
          then (case updateGrant c key password cfg tx of
                  Some err \<Rightarrow> Inl (FailedToUpdateGrant (Key apiAccess) err)
                | None \<Rightarrow> Inr tx)
          else Inl UserNotAuthorized)"

definition Login ::
  "collab \<Rightarrow> string \<Rightarrow> string \<Rightarrow> Config \<Rightarrow> world \<Rightarrow> (error + APIAccess) \<times> world" where
  "Login c key password cfg w =
     (if key = [] then (Inl KeyEmpty, w)
      else if password = [] then (Inl PasswordEmpty, w)
      else case user_New c key password of
             Inl err \<Rightarrow> (Inl err, w)
           | Inr u \<Rightarrow>
               (case setToken c \<lparr>Key = Email u, Hash = user.Hash u, Salt = user.Salt u, Token = []\<rparr>
                       cfg (writer w) of
                  (Some err, apiAccess, rw) \<Rightarrow> (Inl err, w\<lparr>writer := rw\<rparr>)
                | (None, apiAccess, rw) \<Rightarrow>
                    (let (err, d) = Update (Login_check c key password cfg apiAccess) (store w)
                     in case err of
                          Some e \<Rightarrow> (Inl e, \<lparr>store = d, writer = rw\<rparr>)
                        | None \<Rightarrow> (Inr apiAccess, \<lparr>store = d, writer = rw\<rparr>))))"

section \<open>Availability and reservation\<close>

text \<open>
  \<open>Check\<close>. As in \<open>Grant\<close>, the result of the first \<open>View\<close> is assigned to
  \<open>err\<close> and the result of the second to the same variable before it is read.
\<close>

definition Check :: "string \<Rightarrow> db \<Rightarrow> error option" where
  "Check key d =
     (if key = [] then Some KeyEmpty
      else
        (let err = View (\<lambda>tx. case tx apiAccessStore of
                           None \<Rightarrow> Some (FailedToGetBucket apiAccessStore)
                         | Some b \<Rightarrow>
                             if b key \<noteq> None then Some EmailActivelyInUse else None) d;
             err = View (\<lambda>tx. case tx apiPendingUserStore of
                           None \<Rightarrow> Some (FailedToGetBucket apiPendingUserStore)
                         | Some b \<Rightarrow>
                             if b key \<noteq> None then Some EmailPendingInUse else None) d
         in if err \<noteq> None then err else None))"

definition Pending :: "string \<Rightarrow> db \<Rightarrow> error option \<times> db" where
  "Pending key d =
     (if key = [] then (Some PendingKeyEmpty, d)
      else
        (let (err, d) = Update (\<lambda>tx. case tx apiPendingUserStore of
                           None \<Rightarrow> Inl (PendingFailedToGetBucket apiPendingUserStore)
                         | Some b \<Rightarrow>
                             if b key \<noteq> None then Inl PendingEmailInUse
                             else Put tx apiPendingUserStore b key ''pending'') d
         in if err \<noteq> None then (err, d) else (None, d)))"

section \<open>Verification and the gate\<close>

text \<open>
  What the \<open>log.Println\<close>, \<open>fmt.Println\<close> and \<open>fmt.Printf\<close> diagnostics of
  the source print, here and in \<open>updateGrant\<close>, goes to the process log and
  is not modelled; that the dump of \<open>GateKeeper\<close> can panic is.
\<close>

definition IsGranted :: "collab \<Rightarrow> Request \<Rightarrow> reqHeaderOrHTTPCookie \<Rightarrow> bool" where
  "IsGranted c req tokenStore =
     (case getToken req tokenStore of
        Inl err \<Rightarrow> False
      | Inr token \<Rightarrow> jwt_Passes c token)"

text \<open>
  \<open>IsOwner\<close>. The single-value type assertion \<open>claims["access"].(string)\<close> panics
  when the claim is absent (the nil interface) or is not a string.
\<close>

definition IsOwner :: "collab \<Rightarrow> Request \<Rightarrow> reqHeaderOrHTTPCookie \<Rightarrow> string \<Rightarrow> panic + bool" where
  "IsOwner c req tokenStore key =
     (case getToken req tokenStore of
        Inl err \<Rightarrow> Inr False
      | Inr token \<Rightarrow>
          if \<not> jwt_Passes c token then Inr False
          else
            (let claims = jwt_GetClaims c token
             in case claims ''access'' of
                  Some (IString s) \<Rightarrow> if s \<noteq> key then Inr False else Inr True
                | _ \<Rightarrow> Inl InterfaceConversion))"

text \<open>\<open>strings.Index(s, ":")\<close>: the index of the first colon, or -1.\<close>

fun Index_colon :: "string \<Rightarrow> int" where
  "Index_colon [] = - 1"
| "Index_colon (x # xs) =
     (if x = CHR '':'' then 0
      else (let i = Index_colon xs in if i = - 1 then - 1 else i + 1))"

definition trimPortFromAddress :: "string \<Rightarrow> string" where
  "trimPortFromAddress s =
     (let idx = Index_colon s in if idx \<noteq> - 1 then take (nat idx) s else s)"

text \<open>
  The dump at the end of \<open>GateKeeper\<close>: the loop over the fields of the
  request struct, \<open>s.Field(i).Interface()\<close> for each in turn.
  \<open>reflect.Value.Interface\<close> panics on a value obtained from a field that is
  not exported, which ends the loop there; on an exported field the name and
  the value are printed and the loop goes on.
\<close>

fun dumpFields :: "(string \<times> bool) list \<Rightarrow> panic option" where
  "dumpFields [] = None"
| "dumpFields ((name, exported) # rest) =
     (if exported then dumpFields rest else Some UnexportedField)"

text \<open>
  \<open>GateKeeper\<close>: the wrapped handler is served, or the response is written
  here and the request dumped; the handler function returns, or it panics with
  the response writer in the state it has reached. The three tests are
  evaluated left to right and the evaluation stops at the first that holds; the
  third reads \<open>bind_addr\<close> from the configuration cache with a single-value
  type assertion to \<open>string\<close>. The response is one that has not been started,
  so \<open>WriteHeader\<close> sets its status.
\<close>

datatype gate = NextServed | Responded ResponseWriter | Panicked panic ResponseWriter

definition GateKeeper :: "collab \<Rightarrow> Request \<Rightarrow> ResponseWriter \<Rightarrow> gate" where
  "GateKeeper c req res =
     (if IsGranted c req HTTPHeader then NextServed
      else if user_IsValid c req then NextServed
      else case ConfigCache c ''bind_addr'' of
             IString addr \<Rightarrow>
               if trimPortFromAddress (RemoteAddr req) = addr then NextServed
               else
                 (let res = res\<lparr>Status := Some StatusUnauthorized\<rparr>;
                      res = res\<lparr>Body := Body res @ ''Please login first...''\<rparr>
                  in case dumpFields (Request_fields c) of
                       Some p \<Rightarrow> Panicked p res
                     | None \<Rightarrow> Responded res)
           | _ \<Rightarrow> Panicked InterfaceConversion res)"

section \<open>Vocabulary of the specification\<close>

text \<open>
  The specification speaks of the Active and the Pending set; in the store these
  are the buckets \<open>__apiAccess\<close> and \<open>__apiPending\<close>. \<open>activeGrant\<close> is the
  record stored for an identity in the first, \<open>pendingEntry\<close> the marker stored
  for it in the second (\<open>None\<close> when there is none, or no bucket).
\<close>

definition activeGrant :: "db \<Rightarrow> string \<Rightarrow> bytes option" where
  "activeGrant d key = (case d apiAccessStore of None \<Rightarrow> None | Some b \<Rightarrow> b key)"

definition pendingEntry :: "db \<Rightarrow> string \<Rightarrow> bytes option" where
  "pendingEntry d key = (case d apiPendingUserStore of None \<Rightarrow> None | Some b \<Rightarrow> b key)"

text \<open>
  The subject claim of the token a request carries: the \<open>access\<close> entry of the
  claims of the token that \<open>getToken\<close> extracts, if it extracts one.
\<close>

definition subjectClaim :: "collab \<Rightarrow> Request \<Rightarrow> reqHeaderOrHTTPCookie \<Rightarrow> iface option" where
  "subjectClaim c req tokenStore =
     (case getToken req tokenStore of
        Inl err \<Rightarrow> None
      | Inr token \<Rightarrow> jwt_GetClaims c token ''access'')"

text \<open>
  The origin address with its port suffix stripped, in the words of the
  specification: the address without its last colon and the port that follows
  it (the whole address when it has no colon).
\<close>

definition stripPortSuffix :: "string \<Rightarrow> string" where
  "stripPortSuffix s =
     (if CHR '':'' \<in> set s
      then rev (tl (dropWhile (\<lambda>ch. ch \<noteq> CHR '':'') (rev s)))
      else s)"

section \<open>Concrete collaborators and inputs\<close>

text \<open>
  Stand-ins for the collaborators, on which the functions are run at concrete
  inputs: a derivation that keeps the e-mail and tags the password, a codec
  that stores the hash, a token codec that accepts two tokens, one with an
  \<open>access\<close> claim (as \<open>setToken\<close> issues them) and one with a \<open>user\<close> claim
  only, a clock that reads 1.5 seconds, the bind address 127.0.0.1, and the
  fields of \<open>http.Request\<close> as the standard library declares them, the last
  of them, \<open>ctx\<close>, not exported.
\<close>

definition demo :: collab where
  "demo =
     \<lparr>user_New = (\<lambda>email password. Inr \<lparr>Email = email, Hash = ''H:'' @ password, Salt = ''s''\<rparr>),
      user_IsUser = (\<lambda>usr password. user.Hash usr = ''H:'' @ password),
      user_IsValid = (\<lambda>req. False),
      jwt_New = (\<lambda>claims. Inr ''tok''),
      jwt_Passes = (\<lambda>token. token = ''tok'' \<or> token = ''adm''),
      jwt_GetClaims = (\<lambda>token.
         if token = ''tok'' then [''exp'' \<mapsto> IInt64 3601, ''access'' \<mapsto> IString ''a@x.com'']
         else if token = ''adm'' then [''exp'' \<mapsto> IInt64 3601, ''user'' \<mapsto> IString ''root@x.com'']
         else Map.empty),
      json_Marshal = (\<lambda>u. Inr (user.Hash u)),
      json_Unmarshal = (\<lambda>j. Inr \<lparr>Key = [], Hash = j, Salt = ''s'', Token = []\<rparr>),
      time_Now = 1500000000,
      ConfigCache = (\<lambda>k. if k = ''bind_addr'' then IString ''127.0.0.1'' else INil),
      Request_fields =
        [(''Method'', True), (''URL'', True), (''Proto'', True), (''ProtoMajor'', True),
         (''ProtoMinor'', True), (''Header'', True), (''Body'', True), (''GetBody'', True),
         (''ContentLength'', True), (''TransferEncoding'', True), (''Close'', True),
         (''Host'', True), (''Form'', True), (''PostForm'', True), (''MultipartForm'', True),
         (''Trailer'', True), (''RemoteAddr'', True), (''RequestURI'', True), (''TLS'', True),
         (''Cancel'', True), (''Response'', True), (''ctx'', False)]\<rparr>"

text \<open>The same with the bind address \<open>[::1]\<close>.\<close>

definition demoV6 :: collab where
  "demoV6 = demo\<lparr>ConfigCache := (\<lambda>k. if k = ''bind_addr'' then IString ''[::1]'' else INil)\<rparr>"

definition rw0 :: ResponseWriter where
  "rw0 = \<lparr>Header = (\<lambda>k. []), SetCookies = [], Status = None, Body = []\<rparr>"

text \<open>Both buckets empty; and a store with one active grant, for the password \<open>pw1\<close>.\<close>

definition db0 :: db where
  "db0 = [apiAccessStore \<mapsto> Map.empty, apiPendingUserStore \<mapsto> Map.empty]"

definition db1 :: db where
  "db1 = [apiAccessStore \<mapsto> [''a@x.com'' \<mapsto> ''H:pw1''], apiPendingUserStore \<mapsto> Map.empty]"

definition cfg0 :: Config where
  "cfg0 = \<lparr>ExpireAfter = 3600000000000, TokenStore = HTTPHeader, CustomClaims = [],
            SecureCookie = False\<rparr>"

text \<open>
  Requests: one that carries the token with the \<open>user\<close> claim only, one that
  carries the token with the \<open>access\<close> claim, one without a token that
  comes from 127.0.0.1, and one without a token that comes from \<open>[::1]\<close>.
\<close>

definition reqAdm :: Request where
  "reqAdm = \<lparr>ReqHeader = (\<lambda>k. if k = ''Authorization'' then [''Bearer adm''] else []),
             ReqCookies = [], RemoteAddr = ''10.0.0.7:40000''\<rparr>"

definition reqTok :: Request where
  "reqTok = \<lparr>ReqHeader = (\<lambda>k. if k = ''Authorization'' then [''Bearer tok''] else []),
             ReqCookies = [], RemoteAddr = ''10.0.0.7:40000''\<rparr>"

definition reqLocal :: Request where
  "reqLocal = \<lparr>ReqHeader = (\<lambda>k. []), ReqCookies = [], RemoteAddr = ''127.0.0.1:9000''\<rparr>"

definition reqV6 :: Request where
  "reqV6 = \<lparr>ReqHeader = (\<lambda>k. []), ReqCookies = [], RemoteAddr = ''[::1]:9000''\<rparr>"

text \<open>
  Configurations: delivery by cookie; a lifetime of one nanosecond; a custom
  claim named \<open>exp\<close>. And a grant to issue a token for.
\<close>

definition cfgCookie :: Config where
  "cfgCookie = \<lparr>ExpireAfter = 3600000000000, TokenStore = HTTPCookie, CustomClaims = [],
                 SecureCookie = True\<rparr>"

definition cfgNano :: Config where
  "cfgNano = \<lparr>ExpireAfter = 1, TokenStore = HTTPHeader, CustomClaims = [],
               SecureCookie = False\<rparr>"

definition cfgExp :: Config where
  "cfgExp = \<lparr>ExpireAfter = 3600000000000, TokenStore = HTTPHeader,
              CustomClaims = [(''aud'', IString ''x''), (''exp'', IInt64 123)],
              SecureCookie = False\<rparr>"

definition acc0 :: APIAccess where
  "acc0 = \<lparr>Key = ''a@x.com'', Hash = ''H:pw1'', Salt = ''s'', Token = []\<rparr>"

text \<open>The claim a claim set holds under a name, when the claim set was built.\<close>

definition claimOf :: "error + claims \<Rightarrow> string \<Rightarrow> iface option" where
  "claimOf r k = (case r of Inl err \<Rightarrow> None | Inr cl \<Rightarrow> cl k)"

section \<open>Transactions and bucket names\<close>

lemma Update_Inl: "fn d = Inl e \<Longrightarrow> Update fn d = (Some e, d)"
  by (simp add: Update_def)

lemma names_distinct: "apiAccessStore \<noteq> apiPendingUserStore"
  by (simp add: apiAccessStore_def apiPendingUserStore_def)

section \<open>The claim set and its delivery\<close>

text \<open>
  The loop over the custom claims stops at a key that is already in the claim
  map; as \<open>exp\<close> and \<open>access\<close> are there from the start, a custom claim of one
  of these names stops it, at that entry or at an earlier one.
\<close>

lemma mergeCustomClaims_collision:
  "claims ''exp'' \<noteq> None \<Longrightarrow> claims ''access'' \<noteq> None \<Longrightarrow>
   (k, v) \<in> set custom \<Longrightarrow> k = ''exp'' \<or> k = ''access'' \<Longrightarrow>
   \<exists>k' \<in> fst ` set custom. mergeCustomClaims claims custom = Inl (ClaimCollision k')"
proof (induction custom arbitrary: claims)
  case Nil
  then show ?case by simp
next
  case (Cons p custom)
  obtain k0 v0 where p: "p = (k0, v0)" by (cases p)
  show ?case
  proof (cases "claims k0 \<noteq> None")
    case True
    then show ?thesis by (simp add: p)
  next
    case False
    with Cons.prems p have neq: "k0 \<noteq> ''exp''" "k0 \<noteq> ''access''" and mem: "(k, v) \<in> set custom"
      by auto
    have "\<exists>k' \<in> fst ` set custom.
            mergeCustomClaims (claims(k0 \<mapsto> v0)) custom = Inl (ClaimCollision k')"
      by (rule Cons.IH [OF _ _ mem Cons.prems(4)]) (use Cons.prems(1,2) in auto)
    with False show ?thesis by (auto simp: p)
  qed
qed

text \<open>Where the loop runs to its end, every claim it started with is still there.\<close>

lemma mergeCustomClaims_keeps:
  "mergeCustomClaims claims custom = Inr cl \<Longrightarrow> claims k = Some v \<Longrightarrow> cl k = Some v"
proof (induction custom arbitrary: claims)
  case Nil
  then show ?case by simp
next
  case (Cons p custom)
  obtain k0 v0 where p: "p = (k0, v0)" by (cases p)
  from Cons.prems p have free: "claims k0 = None"
    and rest: "mergeCustomClaims (claims(k0 \<mapsto> v0)) custom = Inr cl"
    by (auto split: if_splits)
  from free Cons.prems(2) have "k \<noteq> k0" by auto
  with Cons.prems(2) have "(claims(k0 \<mapsto> v0)) k = Some v" by simp
  from Cons.IH [OF rest this] show ?case .
qed

lemma tokenClaims_collision:
  assumes "(k, v) \<in> set (CustomClaims cfg)" and "k = ''exp'' \<or> k = ''access''"
  shows "\<exists>k' \<in> fst ` set (CustomClaims cfg). tokenClaims c a cfg = Inl (ClaimCollision k')"
  unfolding tokenClaims_def Let_def
  by (rule mergeCustomClaims_collision [OF _ _ assms]) simp_all

lemma tokenClaims_reserved:
  assumes "tokenClaims c a cfg = Inr cl"
  shows "cl ''access'' = Some (IString (Key a))"
    and "cl ''exp'' = Some (IInt64 (Unix (time_Now c + ExpireAfter cfg)))"
proof -
  from assms have m: "mergeCustomClaims
      [''exp'' \<mapsto> IInt64 (Unix (time_Now c + ExpireAfter cfg)), ''access'' \<mapsto> IString (Key a)]
      (CustomClaims cfg) = Inr cl"
    by (simp add: tokenClaims_def Let_def)
  show "cl ''access'' = Some (IString (Key a))"
    by (rule mergeCustomClaims_keeps [OF m]) simp
  show "cl ''exp'' = Some (IInt64 (Unix (time_Now c + ExpireAfter cfg)))"
    by (rule mergeCustomClaims_keeps [OF m]) simp
qed

lemma setToken_claims_error:
  "tokenClaims c a cfg = Inl e \<Longrightarrow> setToken c a cfg rw = (Some e, a, rw)"
  by (simp add: setToken_def)

lemma setToken_cases:
  "setToken c a cfg rw = (None, a', rw') \<Longrightarrow>
   \<exists>cl. tokenClaims c a cfg = Inr cl \<and> jwt_New c cl = Inr (Token a')
        \<and> a' = a\<lparr>Token := Token a'\<rparr> \<and> TokenStore cfg \<noteq> OtherStore"
  by (auto simp: setToken_def Let_def split: sum.splits reqHeaderOrHTTPCookie.splits)

lemma setToken_delivers:
  assumes "tokenClaims c a cfg = Inr cl" and "jwt_New c cl = Inr token"
  shows "TokenStore cfg = HTTPHeader \<Longrightarrow>
           setToken c a cfg rw
             = (None, a\<lparr>Token := token\<rparr>, Header_Add rw ''Authorization'' (''Bearer '' @ token))"
    and "TokenStore cfg = HTTPCookie \<Longrightarrow>
           setToken c a cfg rw
             = (None, a\<lparr>Token := token\<rparr>,
                SetCookie rw \<lparr>Name = apiAccessCookie, Value = token,
                              Expires = time_Now c + ExpireAfter cfg, Path = ''/'',
                              HttpOnly = True, Secure = SecureCookie cfg\<rparr>)"
  using assms by (simp_all add: setToken_def Let_def)

text \<open>
  \<open>Grant\<close> and \<open>Login\<close> leave the response writer as \<open>setToken\<close> left it,
  whatever the transactions that follow return; \<open>Login\<close> never changes the store.
\<close>

lemma Grant_writer:
  assumes "key \<noteq> []" and "password \<noteq> []" and "user_New c key password = Inr u"
  shows "writer (snd (Grant c key password cfg w))
           = snd (snd (setToken c \<lparr>Key = Email u, Hash = user.Hash u, Salt = user.Salt u, Token = []\<rparr>
                         cfg (writer w)))"
  using assms
  by (simp add: Grant_def Let_def split: prod.splits option.splits)

lemma Login_writer:
  assumes "key \<noteq> []" and "password \<noteq> []" and "user_New c key password = Inr u"
  shows "writer (snd (Login c key password cfg w))
           = snd (snd (setToken c \<lparr>Key = Email u, Hash = user.Hash u, Salt = user.Salt u, Token = []\<rparr>
                         cfg (writer w)))"
  using assms
  by (simp add: Login_def Let_def split: prod.splits option.splits)

lemma Login_store: "store (snd (Login c key password cfg w)) = store w"
  by (auto simp: Login_def Login_check_def Update_def Let_def
      split: sum.splits prod.splits option.splits if_splits)

text \<open>Where \<open>setToken\<close> fails without a write, \<open>Grant\<close> and \<open>Login\<close> fail and change nothing.\<close>

lemma Grant_setToken_error:
  assumes "\<And>a. \<exists>e. setToken c a cfg (writer w) = (Some e, a, writer w)"
  shows "\<exists>e. Grant c key password cfg w = (Inl e, w)"
proof (cases "key = [] \<or> password = []")
  case True
  then show ?thesis by (auto simp: Grant_def)
next
  case False
  show ?thesis
  proof (cases "user_New c key password")
    case (Inl e)
    with False show ?thesis by (simp add: Grant_def)
  next
    case (Inr u)
    from assms obtain e where
      "setToken c \<lparr>Key = Email u, Hash = user.Hash u, Salt = user.Salt u, Token = []\<rparr>
         cfg (writer w) = (Some e, \<lparr>Key = Email u, Hash = user.Hash u, Salt = user.Salt u, Token = []\<rparr>, writer w)"
      by blast
    with False Inr show ?thesis by (simp add: Grant_def)
  qed
qed

lemma Login_setToken_error:
  assumes "\<And>a. \<exists>e. setToken c a cfg (writer w) = (Some e, a, writer w)"
  shows "\<exists>e. Login c key password cfg w = (Inl e, w)"
proof (cases "key = [] \<or> password = []")
  case True
  then show ?thesis by (auto simp: Login_def)
next
  case False
  show ?thesis
  proof (cases "user_New c key password")
    case (Inl e)
    with False show ?thesis by (simp add: Login_def)
  next
    case (Inr u)
    from assms obtain e where
      "setToken c \<lparr>Key = Email u, Hash = user.Hash u, Salt = user.Salt u, Token = []\<rparr>
         cfg (writer w) = (Some e, \<lparr>Key = Email u, Hash = user.Hash u, Salt = user.Salt u, Token = []\<rparr>, writer w)"
      by blast
    with False Inr show ?thesis by (simp add: Login_def)
  qed
qed

text \<open>Unix seconds of a time a duration later.\<close>

lemma Unix_future:
  assumes "1000000000 \<le> d"
  shows "t < Unix (t + d) * 1000000000"
proof -
  have "(t + d) mod 1000000000 < 1000000000"
    by simp
  moreover have "(t + d) div 1000000000 * 1000000000 = (t + d) - (t + d) mod 1000000000"
    by (simp add: minus_mod_eq_div_mult)
  ultimately show ?thesis
    using assms unfolding Unix_def by linarith
qed

lemma Unix_mono: "0 \<le> d \<Longrightarrow> Unix t \<le> Unix (t + d)"
  unfolding Unix_def by (simp add: zdiv_mono1)

lemma Unix_whole_seconds: "Unix (t + n * 1000000000) = Unix t + n"
  unfolding Unix_def by simp

text \<open>The first colon of \<open>host:port\<close> ends the host, when the host has none.\<close>

lemma Index_colon_append:
  "CHR '':'' \<notin> set host \<Longrightarrow> Index_colon (host @ CHR '':'' # port) = int (length host)"
  by (induction host) (auto simp: Let_def)

lemma trimPortFromAddress_host_port:
  "CHR '':'' \<notin> set host \<Longrightarrow> trimPortFromAddress (host @ CHR '':'' # port) = host"
  by (simp add: trimPortFromAddress_def Index_colon_append Let_def)

section \<open>Grant over an existing grant\<close>

text \<open>
  The value \<open>Grant\<close> returns does not depend on the first transaction: when
  that one fails, its error is dropped, and with the pending bucket in place the
  grant is returned.
\<close>

lemma Grant_result_ignores_first_transaction:
  assumes "key \<noteq> []" and "password \<noteq> []"
    and "user_New c key password = Inr u"
    and "setToken c \<lparr>Key = Email u, Hash = user.Hash u, Salt = user.Salt u, Token = []\<rparr> cfg (writer w)
           = (None, apiAccess, rw)"
    and "Grant_put c key password cfg u apiAccess (store w) = Inl e"
    and "store w apiPendingUserStore = Some p"
  shows "fst (Grant c key password cfg w) = Inr apiAccess"
  using assms
  by (simp add: Grant_def Update_def Grant_clear_def Delete_def)

text \<open>
  C1. \<open>Grant\<close> on an identity with an active grant, called with a non-empty
  but wrong secret, is to leave the stored record unchanged and to return an
  error. Run on the store in which \<open>a@x.com\<close> has a grant for \<open>pw1\<close>, with
  the secret \<open>wrong\<close>: \<open>updateGrant\<close> reports the unauthorized attempt and the
  stored record stays as it was, but \<open>Grant\<close> returns the grant, with its
  token, and no error.
\<close>

theorem Grant_wrong_secret_returns_grant:
  "activeGrant db1 ''a@x.com'' = Some ''H:pw1''
   \<and> updateGrant demo ''a@x.com'' ''wrong'' cfg0 db1 = Some (UnauthorizedAttempt [])
   \<and> fst (Grant demo ''a@x.com'' ''wrong'' cfg0 \<lparr>store = db1, writer = rw0\<rparr>)
       = Inr \<lparr>Key = ''a@x.com'', Hash = ''H:wrong'', Salt = ''s'', Token = ''tok''\<rparr>
   \<and> activeGrant (store (snd (Grant demo ''a@x.com'' ''wrong'' cfg0 \<lparr>store = db1, writer = rw0\<rparr>)))
        ''a@x.com'' = Some ''H:pw1''"
  by (simp add: activeGrant_def updateGrant_def Unmarshal_def Grant_def Grant_put_def
      Grant_clear_def Update_def setToken_def tokenClaims_def Header_Add_def
      demo_def db1_def cfg0_def rw0_def apiAccessStore_def apiPendingUserStore_def)

section \<open>Check\<close>

text \<open>
  C2. \<open>Check\<close> is to succeed if and only if the identity is in neither the
  Pending nor the Active set, and so to fail when it is in the Active set only.
  Run on the store in which \<open>a@x.com\<close> has an active grant and no pending
  entry, \<open>Check\<close> returns nil: the error of the first \<open>View\<close> is overwritten by
  the result of the second.
\<close>

theorem Check_active_only_returns_nil:
  "activeGrant db1 ''a@x.com'' = Some ''H:pw1'' \<and> pendingEntry db1 ''a@x.com'' = None
   \<and> Check ''a@x.com'' db1 = None"
  by (simp add: activeGrant_def pendingEntry_def Check_def View_def db1_def
      apiAccessStore_def apiPendingUserStore_def)

section \<open>Token delivery comes first\<close>

text \<open>
  C3. For every call of \<open>Login\<close> or \<open>Grant\<close> with non-empty key and
  password in which the derivation of the credentials and the construction of
  the token succeed, the token is written to the configured transport (the
  \<open>Authorization\<close> response header, or the cookie) before the store is
  consulted: the response writer of the result is the one \<open>setToken\<close> wrote
  to, for every store and whatever the call then returns, an error included.
\<close>

theorem token_written_before_store_is_consulted:
  assumes "key \<noteq> []" and "password \<noteq> []"
    and "user_New c key password = Inr u"
    and "tokenClaims c \<lparr>Key = Email u, Hash = user.Hash u, Salt = user.Salt u, Token = []\<rparr> cfg
           = Inr cl"
    and "jwt_New c cl = Inr token"
  shows "(TokenStore cfg = HTTPHeader \<longrightarrow>
            writer (snd (Login c key password cfg w))
              = Header_Add (writer w) ''Authorization'' (''Bearer '' @ token)
          \<and> writer (snd (Grant c key password cfg w))
              = Header_Add (writer w) ''Authorization'' (''Bearer '' @ token))
       \<and> (TokenStore cfg = HTTPCookie \<longrightarrow>
            writer (snd (Login c key password cfg w))
              = SetCookie (writer w)
                  \<lparr>Name = apiAccessCookie, Value = token,
                   Expires = time_Now c + ExpireAfter cfg, Path = ''/'',
                   HttpOnly = True, Secure = SecureCookie cfg\<rparr>
          \<and> writer (snd (Grant c key password cfg w))
              = SetCookie (writer w)
                  \<lparr>Name = apiAccessCookie, Value = token,
                   Expires = time_Now c + ExpireAfter cfg, Path = ''/'',
                   HttpOnly = True, Secure = SecureCookie cfg\<rparr>)"
  by (simp add: Login_writer [OF assms(1-3)] Grant_writer [OF assms(1-3)]
      setToken_delivers [OF assms(4,5)])

text \<open>
  Witness for C3: a login for an unknown identity, and a login with a wrong
  secret under cookie delivery; both return an error and both have written the
  token.
\<close>

theorem token_written_before_store_is_consulted_witness:
  "fst (Login demo ''b@x.com'' ''pw'' cfg0 \<lparr>store = db1, writer = rw0\<rparr>) = Inl UserNotAuthorized
   \<and> Header (writer (snd (Login demo ''b@x.com'' ''pw'' cfg0 \<lparr>store = db1, writer = rw0\<rparr>)))
        ''Authorization'' = [''Bearer tok'']
   \<and> fst (Login demo ''a@x.com'' ''wrong'' cfgCookie \<lparr>store = db1, writer = rw0\<rparr>)
       = Inl (FailedToUpdateGrant ''a@x.com'' (UnauthorizedAttempt []))
   \<and> SetCookies (writer (snd (Login demo ''a@x.com'' ''wrong'' cfgCookie \<lparr>store = db1, writer = rw0\<rparr>)))
       = [\<lparr>Name = ''_apiAccessToken'', Value = ''tok'', Expires = 3601500000000, Path = ''/'',
           HttpOnly = True, Secure = True\<rparr>]"
proof -
  have login1: "fst (Login demo ''b@x.com'' ''pw'' cfg0 \<lparr>store = db1, writer = rw0\<rparr>)
                  = Inl UserNotAuthorized"
    by (simp add: Login_def Login_check_def Update_def setToken_def tokenClaims_def
        Header_Add_def demo_def db1_def cfg0_def rw0_def apiAccessStore_def
        apiPendingUserStore_def)
  have login2: "fst (Login demo ''a@x.com'' ''wrong'' cfgCookie \<lparr>store = db1, writer = rw0\<rparr>)
                  = Inl (FailedToUpdateGrant ''a@x.com'' (UnauthorizedAttempt []))"
    by (simp add: Login_def Login_check_def Update_def updateGrant_def Unmarshal_def
        setToken_def tokenClaims_def SetCookie_def demo_def db1_def cfgCookie_def rw0_def
        apiAccessStore_def apiPendingUserStore_def)
  have w1: "writer (snd (Login demo ''b@x.com'' ''pw'' cfg0 \<lparr>store = db1, writer = rw0\<rparr>))
              = Header_Add rw0 ''Authorization'' ''Bearer tok''"
    using token_written_before_store_is_consulted
      [of "''b@x.com''" "''pw''" demo "\<lparr>Email = ''b@x.com'', Hash = ''H:pw'', Salt = ''s''\<rparr>"
        cfg0 "[''exp'' \<mapsto> IInt64 3601, ''access'' \<mapsto> IString ''b@x.com'']" "''tok''"
        "\<lparr>store = db1, writer = rw0\<rparr>"]
    by (simp add: tokenClaims_def Unix_def demo_def cfg0_def)
  have w2: "writer (snd (Login demo ''a@x.com'' ''wrong'' cfgCookie \<lparr>store = db1, writer = rw0\<rparr>))
              = SetCookie rw0 \<lparr>Name = apiAccessCookie, Value = ''tok'',
                   Expires = time_Now demo + ExpireAfter cfgCookie, Path = ''/'',
                   HttpOnly = True, Secure = SecureCookie cfgCookie\<rparr>"
    using token_written_before_store_is_consulted
      [of "''a@x.com''" "''wrong''" demo "\<lparr>Email = ''a@x.com'', Hash = ''H:wrong'', Salt = ''s''\<rparr>"
        cfgCookie "[''exp'' \<mapsto> IInt64 3601, ''access'' \<mapsto> IString ''a@x.com'']" "''tok''"
        "\<lparr>store = db1, writer = rw0\<rparr>"]
    by (simp add: tokenClaims_def Unix_def demo_def cfgCookie_def)
  have h1: "Header (Header_Add rw0 ''Authorization'' ''Bearer tok'') ''Authorization''
              = [''Bearer tok'']"
    by (simp add: Header_Add_def rw0_def)
  have h2: "SetCookies (SetCookie rw0 \<lparr>Name = apiAccessCookie, Value = ''tok'',
                   Expires = time_Now demo + ExpireAfter cfgCookie, Path = ''/'',
                   HttpOnly = True, Secure = SecureCookie cfgCookie\<rparr>)
              = [\<lparr>Name = ''_apiAccessToken'', Value = ''tok'', Expires = 3601500000000,
                  Path = ''/'', HttpOnly = True, Secure = True\<rparr>]"
    by (simp add: SetCookie_def rw0_def apiAccessCookie_def demo_def cfgCookie_def)
  show ?thesis
    by (simp only: login1 login2 w1 w2 h1 h2 simp_thms)
qed

section \<open>Pending\<close>

text \<open>
  C4, as stated, fails: \<open>Pending\<close> does not look at the Active set. On the
  store in which \<open>a@x.com\<close> has an active grant and no pending entry it
  succeeds and inserts the pending entry.
\<close>

theorem Pending_active_only_counterexample:
  "activeGrant db1 ''a@x.com'' = Some ''H:pw1''
   \<and> fst (Pending ''a@x.com'' db1) = None
   \<and> pendingEntry (snd (Pending ''a@x.com'' db1)) ''a@x.com'' = Some ''pending''"
  by (simp add: activeGrant_def pendingEntry_def Pending_def Update_def Put_def db1_def
      MaxKeySize_def MaxValueSize_def apiAccessStore_def apiPendingUserStore_def)

text \<open>
  C4, amended. For every non-empty identity that the store accepts as a key (at
  most \<open>MaxKeySize\<close> bytes), with the pending bucket present: \<open>Pending\<close> fails with
  the conflict error, changing nothing, if the identity is already in the Pending
  set, and otherwise inserts it into the Pending set and succeeds, whether or not
  it is in the Active set, which it leaves as it is.
\<close>

theorem Pending_consults_pending_only:
  assumes "key \<noteq> []" and "length key \<le> MaxKeySize" and "d apiPendingUserStore = Some b"
  shows "(b key \<noteq> None \<longrightarrow> Pending key d = (Some PendingEmailInUse, d))
       \<and> (b key = None \<longrightarrow>
            Pending key d = (None, d(apiPendingUserStore \<mapsto> b(key \<mapsto> ''pending''))))
       \<and> activeGrant (snd (Pending key d)) = activeGrant d"
  using assms
  by (auto simp: Pending_def Update_def Put_def MaxValueSize_def activeGrant_def names_distinct)

text \<open>
  Witness for C4: reserving \<open>a@x.com\<close> succeeds on the store in which it is
  active, and reserving it once more fails.
\<close>

theorem Pending_consults_pending_only_witness:
  "Pending ''a@x.com'' db1
     = (None, db1(apiPendingUserStore \<mapsto> [''a@x.com'' \<mapsto> ''pending'']))
   \<and> Pending ''a@x.com'' (db1(apiPendingUserStore \<mapsto> [''a@x.com'' \<mapsto> ''pending'']))
     = (Some PendingEmailInUse, db1(apiPendingUserStore \<mapsto> [''a@x.com'' \<mapsto> ''pending'']))"
  using Pending_consults_pending_only [of "''a@x.com''" db1 Map.empty]
    Pending_consults_pending_only [of "''a@x.com''"
      "db1(apiPendingUserStore \<mapsto> [''a@x.com'' \<mapsto> ''pending''])" "[''a@x.com'' \<mapsto> ''pending'']"]
  by (simp add: db1_def MaxKeySize_def)

section \<open>Login without a grant\<close>

text \<open>
  C5. For every identity with no active grant and every non-empty secret,
  \<open>Login\<close> returns an error and the store is as it was, so no grant is
  created. The error is the one of the unknown identity, \<open>User Not Authorized\<close>,
  whenever the call gets as far as the store: the identity is not empty, the
  derivation returns a user of that e-mail, the token is issued and the bucket
  is there. (Before that, the error is that of the step that failed.)
\<close>

theorem Login_without_grant_fails:
  assumes "password \<noteq> []" and "activeGrant (store w) key = None"
  shows "(\<exists>e. fst (Login c key password cfg w) = Inl e)
       \<and> store (snd (Login c key password cfg w)) = store w
       \<and> (key \<noteq> [] \<and> user_New c key password = Inr u \<and> Email u = key
            \<and> fst (setToken c \<lparr>Key = Email u, Hash = user.Hash u, Salt = user.Salt u, Token = []\<rparr>
                     cfg (writer w)) = None
            \<and> store w apiAccessStore \<noteq> None
          \<longrightarrow> fst (Login c key password cfg w) = Inl UserNotAuthorized)"
proof -
  have upd: "\<And>b. store w apiAccessStore = Some b \<Longrightarrow>
               updateGrant c key password cfg (store w)
                 = Some (FailedToGetAccessGrant UnexpectedEndOfJSON)"
    using assms(2) by (simp add: updateGrant_def Unmarshal_def activeGrant_def)
  have chk: "\<And>a. \<exists>e. Login_check c key password cfg a (store w) = Inl e"
    by (auto simp: Login_check_def upd split: option.splits)
  have err: "\<exists>e. fst (Login c key password cfg w) = Inl e"
  proof (cases "key = []")
    case True
    then show ?thesis by (simp add: Login_def)
  next
    case k: False
    show ?thesis
    proof (cases "user_New c key password")
      case (Inl e)
      with k assms(1) show ?thesis by (simp add: Login_def)
    next
      case (Inr u')
      obtain eo a rw where st:
        "setToken c \<lparr>Key = Email u', Hash = user.Hash u', Salt = user.Salt u', Token = []\<rparr>
           cfg (writer w) = (eo, a, rw)"
        by (metis prod_cases3)
      show ?thesis
      proof (cases eo)
        case None
        from chk obtain e where "Login_check c key password cfg a (store w) = Inl e"
          by blast
        then have "Update (Login_check c key password cfg a) (store w) = (Some e, store w)"
          by (rule Update_Inl)
        with k assms(1) Inr st None show ?thesis by (simp add: Login_def)
      next
        case (Some e)
        with k assms(1) Inr st show ?thesis by (simp add: Login_def)
      qed
    qed
  qed
  have nf: "key \<noteq> [] \<and> user_New c key password = Inr u \<and> Email u = key
            \<and> fst (setToken c \<lparr>Key = Email u, Hash = user.Hash u, Salt = user.Salt u, Token = []\<rparr>
                     cfg (writer w)) = None
            \<and> store w apiAccessStore \<noteq> None
          \<longrightarrow> fst (Login c key password cfg w) = Inl UserNotAuthorized"
  proof (intro impI, elim conjE)
    assume k: "key \<noteq> []" and u: "user_New c key password = Inr u" and e: "Email u = key"
      and t: "fst (setToken c \<lparr>Key = Email u, Hash = user.Hash u, Salt = user.Salt u, Token = []\<rparr>
                     cfg (writer w)) = None"
      and b: "store w apiAccessStore \<noteq> None"
    obtain a rw where st: "setToken c \<lparr>Key = Email u, Hash = user.Hash u, Salt = user.Salt u, Token = []\<rparr>
                     cfg (writer w) = (None, a, rw)"
      using t by (cases "setToken c \<lparr>Key = Email u, Hash = user.Hash u, Salt = user.Salt u, Token = []\<rparr>
                     cfg (writer w)") auto
    from setToken_cases [OF st] have ka: "Key a = key"
      using e by (metis APIAccess.select_convs(1) APIAccess.surjective APIAccess.update_convs(4))
    from b obtain bk where bk: "store w apiAccessStore = Some bk" by auto
    with assms(2) have "bk key = None" by (simp add: activeGrant_def)
    with bk ka have "Login_check c key password cfg a (store w) = Inl UserNotAuthorized"
      by (simp add: Login_check_def)
    then have "Update (Login_check c key password cfg a) (store w) = (Some UserNotAuthorized, store w)"
      by (rule Update_Inl)
    with k assms(1) u st show "fst (Login c key password cfg w) = Inl UserNotAuthorized"
      by (simp add: Login_def)
  qed
  from err Login_store nf show ?thesis by blast
qed

text \<open>Witness for C5: a login for \<open>b@x.com\<close>, which has no grant.\<close>

theorem Login_without_grant_fails_witness:
  "activeGrant db1 ''b@x.com'' = None
   \<and> fst (Login demo ''b@x.com'' ''pw'' cfg0 \<lparr>store = db1, writer = rw0\<rparr>) = Inl UserNotAuthorized
   \<and> store (snd (Login demo ''b@x.com'' ''pw'' cfg0 \<lparr>store = db1, writer = rw0\<rparr>)) = db1"
  using Login_without_grant_fails
    [of "''pw''" "\<lparr>store = db1, writer = rw0\<rparr>" "''b@x.com''" demo cfg0
      "\<lparr>Email = ''b@x.com'', Hash = ''H:pw'', Salt = ''s''\<rparr>"]
  by (simp add: activeGrant_def setToken_def tokenClaims_def demo_def db1_def cfg0_def
      apiAccessStore_def apiPendingUserStore_def)

section \<open>Reserved claim names\<close>

text \<open>
  C6. For every configuration whose custom claims have an entry named \<open>exp\<close>
  or \<open>access\<close>, issuing a token fails with the collision error, naming one of
  the custom claims; the receiver gets no token and the response writer no
  header and no cookie. \<open>Grant\<close> and \<open>Login\<close> under such a configuration fail
  and leave the store and the response writer as they were, and fail with the
  collision error once key and password are non-empty and the derivation
  succeeds.
\<close>

theorem reserved_custom_claim_is_rejected:
  assumes "(k, v) \<in> set (CustomClaims cfg)" and "k = ''exp'' \<or> k = ''access''"
  shows "(\<exists>k' \<in> fst ` set (CustomClaims cfg).
            setToken c a cfg rw = (Some (ClaimCollision k'), a, rw))
       \<and> (\<exists>e. Grant c key password cfg w = (Inl e, w))
       \<and> (\<exists>e. Login c key password cfg w = (Inl e, w))
       \<and> (key \<noteq> [] \<and> password \<noteq> [] \<and> user_New c key password = Inr u \<longrightarrow>
            (\<exists>k'. fst (Grant c key password cfg w) = Inl (ClaimCollision k'))
          \<and> (\<exists>k'. fst (Login c key password cfg w) = Inl (ClaimCollision k')))"
proof -
  have st: "\<exists>k' \<in> fst ` set (CustomClaims cfg).
              setToken c a' cfg rw' = (Some (ClaimCollision k'), a', rw')" for a' rw'
  proof -
    from tokenClaims_collision [OF assms, of c a'] obtain k' where
      "k' \<in> fst ` set (CustomClaims cfg)" "tokenClaims c a' cfg = Inl (ClaimCollision k')"
      by blast
    then show ?thesis by (blast intro: setToken_claims_error)
  qed
  then have any: "\<exists>e. setToken c a' cfg (writer w) = (Some e, a', writer w)" for a'
    by blast
  have g: "\<exists>e. Grant c key password cfg w = (Inl e, w)"
    by (rule Grant_setToken_error) (rule any)
  have l: "\<exists>e. Login c key password cfg w = (Inl e, w)"
    by (rule Login_setToken_error) (rule any)
  have named: "key \<noteq> [] \<and> password \<noteq> [] \<and> user_New c key password = Inr u \<longrightarrow>
            (\<exists>k'. fst (Grant c key password cfg w) = Inl (ClaimCollision k'))
          \<and> (\<exists>k'. fst (Login c key password cfg w) = Inl (ClaimCollision k'))"
  proof (intro impI, elim conjE)
    assume h: "key \<noteq> []" "password \<noteq> []" "user_New c key password = Inr u"
    from st obtain k' where
      "setToken c \<lparr>Key = Email u, Hash = user.Hash u, Salt = user.Salt u, Token = []\<rparr> cfg (writer w)
         = (Some (ClaimCollision k'), \<lparr>Key = Email u, Hash = user.Hash u, Salt = user.Salt u, Token = []\<rparr>, writer w)"
      by blast
    with h show "(\<exists>k'. fst (Grant c key password cfg w) = Inl (ClaimCollision k'))
          \<and> (\<exists>k'. fst (Login c key password cfg w) = Inl (ClaimCollision k'))"
      by (simp add: Grant_def Login_def)
  qed
  from st g l named show ?thesis by blast
qed

text \<open>Witness for C6: a configuration with the custom claims \<open>aud\<close> and \<open>exp\<close>.\<close>

theorem reserved_custom_claim_is_rejected_witness:
  "setToken demo acc0 cfgExp rw0 = (Some (ClaimCollision ''exp''), acc0, rw0)
   \<and> Grant demo ''a@x.com'' ''pw1'' cfgExp \<lparr>store = db0, writer = rw0\<rparr>
       = (Inl (ClaimCollision ''exp''), \<lparr>store = db0, writer = rw0\<rparr>)
   \<and> Login demo ''a@x.com'' ''pw1'' cfgExp \<lparr>store = db1, writer = rw0\<rparr>
       = (Inl (ClaimCollision ''exp''), \<lparr>store = db1, writer = rw0\<rparr>)"
proof -
  have mem: "(''exp'', IInt64 123) \<in> set (CustomClaims cfgExp)"
    by (simp add: cfgExp_def)
  have ev: "tokenClaims demo a cfgExp = Inl (ClaimCollision ''exp'')" for a
    by (simp add: tokenClaims_def cfgExp_def)
  have n: "user_New demo ''a@x.com'' ''pw1''
             = Inr \<lparr>Email = ''a@x.com'', Hash = ''H:pw1'', Salt = ''s''\<rparr>"
    by (simp add: demo_def)
  have fg: "fst (Grant demo ''a@x.com'' ''pw1'' cfgExp \<lparr>store = db0, writer = rw0\<rparr>)
              = Inl (ClaimCollision ''exp'')"
    by (simp add: Grant_def n setToken_claims_error [OF ev])
  have fl: "fst (Login demo ''a@x.com'' ''pw1'' cfgExp \<lparr>store = db1, writer = rw0\<rparr>)
              = Inl (ClaimCollision ''exp'')"
    by (simp add: Login_def n setToken_claims_error [OF ev])
  have fs: "fst (setToken demo acc0 cfgExp rw0) = Some (ClaimCollision ''exp'')"
    by (simp add: setToken_claims_error [OF ev])
  note r0 = reserved_custom_claim_is_rejected [OF mem, of demo acc0 rw0 "''a@x.com''" "''pw1''"
      "\<lparr>store = db0, writer = rw0\<rparr>" "\<lparr>Email = ''a@x.com'', Hash = ''H:pw1'', Salt = ''s''\<rparr>"]
  note r1 = reserved_custom_claim_is_rejected [OF mem, of demo acc0 rw0 "''a@x.com''" "''pw1''"
      "\<lparr>store = db1, writer = rw0\<rparr>" "\<lparr>Email = ''a@x.com'', Hash = ''H:pw1'', Salt = ''s''\<rparr>"]
  from r0 obtain k' where "setToken demo acc0 cfgExp rw0 = (Some (ClaimCollision k'), acc0, rw0)"
    by blast
  with fs have g1: "setToken demo acc0 cfgExp rw0 = (Some (ClaimCollision ''exp''), acc0, rw0)"
    by simp
  from r0 obtain e where "Grant demo ''a@x.com'' ''pw1'' cfgExp \<lparr>store = db0, writer = rw0\<rparr>
       = (Inl e, \<lparr>store = db0, writer = rw0\<rparr>)"
    by blast
  with fg have g2: "Grant demo ''a@x.com'' ''pw1'' cfgExp \<lparr>store = db0, writer = rw0\<rparr>
       = (Inl (ClaimCollision ''exp''), \<lparr>store = db0, writer = rw0\<rparr>)"
    by simp
  from r1 obtain e where "Login demo ''a@x.com'' ''pw1'' cfgExp \<lparr>store = db1, writer = rw0\<rparr>
       = (Inl e, \<lparr>store = db1, writer = rw0\<rparr>)"
    by blast
  with fl have g3: "Login demo ''a@x.com'' ''pw1'' cfgExp \<lparr>store = db1, writer = rw0\<rparr>
       = (Inl (ClaimCollision ''exp''), \<lparr>store = db1, writer = rw0\<rparr>)"
    by simp
  from g1 g2 g3 show ?thesis by simp
qed

section \<open>Ownership\<close>

text \<open>
  C7. For every request, token store and key, \<open>IsOwner\<close> returns true if and
  only if \<open>IsGranted\<close> returns true on the same request and token store and
  the \<open>access\<close> claim of the token is the string equal to the key.
\<close>

theorem IsOwner_iff_granted_and_subject:
  "IsOwner c req tokenStore key = Inr True
     \<longleftrightarrow> IsGranted c req tokenStore \<and> subjectClaim c req tokenStore = Some (IString key)"
  by (auto simp: IsOwner_def IsGranted_def subjectClaim_def
      split: sum.splits option.splits iface.splits)

text \<open>
  Witness for C7: the token of \<open>a@x.com\<close> owns \<open>a@x.com\<close> and, the
  comparison being case-sensitive, not \<open>A@x.com\<close>.
\<close>

theorem IsOwner_iff_granted_and_subject_witness:
  "IsOwner demo reqTok HTTPHeader ''a@x.com'' = Inr True
   \<and> IsGranted demo reqTok HTTPHeader
   \<and> subjectClaim demo reqTok HTTPHeader = Some (IString ''a@x.com'')
   \<and> IsOwner demo reqTok HTTPHeader ''A@x.com'' \<noteq> Inr True"
  using IsOwner_iff_granted_and_subject [of demo reqTok HTTPHeader "''a@x.com''"]
    IsOwner_iff_granted_and_subject [of demo reqTok HTTPHeader "''A@x.com''"]
  by (simp add: IsGranted_def subjectClaim_def getToken_def Header_Get_def TrimPrefix_def
      demo_def reqTok_def)

text \<open>
  C10. \<open>IsOwner\<close> is to return a boolean for every request, token store and
  key, also for a token that passes verification and has no \<open>access\<close> claim
  of string type. Run on a request whose bearer token passes verification and
  carries the claims \<open>exp\<close> and \<open>user\<close>, \<open>IsOwner\<close> panics in the type
  assertion, where \<open>IsGranted\<close> returns true.
\<close>

theorem IsOwner_panics_without_access_claim:
  "getToken reqAdm HTTPHeader = Inr ''adm'' \<and> jwt_Passes demo ''adm''
   \<and> jwt_GetClaims demo ''adm'' ''access'' = None
   \<and> IsGranted demo reqAdm HTTPHeader
   \<and> IsOwner demo reqAdm HTTPHeader ''a@x.com'' = Inl InterfaceConversion"
  by (simp add: getToken_def Header_Get_def TrimPrefix_def IsGranted_def IsOwner_def
      demo_def reqAdm_def)

section \<open>The gate\<close>

text \<open>
  What \<open>GateKeeper\<close> does, with a bind address configured: it serves the
  wrapped handler exactly when the token of the request header passes, or the
  session check succeeds, or the remote address cut at its first colon is the
  bind address; otherwise it writes the status 401 and the fixed message and
  then dumps the request, which panics when the request struct has a field that
  is not exported.
\<close>

lemma GateKeeper_serves_iff:
  assumes "ConfigCache c ''bind_addr'' = IString addr"
  shows "GateKeeper c req res = NextServed
           \<longleftrightarrow> IsGranted c req HTTPHeader \<or> user_IsValid c req
               \<or> trimPortFromAddress (RemoteAddr req) = addr"
  using assms by (auto simp: GateKeeper_def Let_def split: option.splits)

lemma GateKeeper_deny_path:
  assumes "ConfigCache c ''bind_addr'' = IString addr"
    and "\<not> IsGranted c req HTTPHeader" and "\<not> user_IsValid c req"
    and "trimPortFromAddress (RemoteAddr req) \<noteq> addr"
  shows "GateKeeper c req res
           = (case dumpFields (Request_fields c) of
                Some p \<Rightarrow> Panicked p (res\<lparr>Status := Some StatusUnauthorized,
                                           Body := Body res @ ''Please login first...''\<rparr>)
              | None \<Rightarrow> Responded (res\<lparr>Status := Some StatusUnauthorized,
                                        Body := Body res @ ''Please login first...''\<rparr>))"
  using assms by (simp add: GateKeeper_def Let_def split: option.splits)

lemma dumpFields_panics: "(name, False) \<in> set fs \<Longrightarrow> dumpFields fs = Some UnexportedField"
  by (induction fs rule: dumpFields.induct) auto

text \<open>
  Cutting at the first colon strips the port suffix when the host has no colon,
  as in \<open>127.0.0.1:9000\<close>.
\<close>

lemma stripPortSuffix_host_port:
  assumes "CHR '':'' \<notin> set port"
  shows "stripPortSuffix (host @ CHR '':'' # port) = host"
proof -
  from assms have d: "dropWhile (\<lambda>ch. ch \<noteq> CHR '':'') (rev port) = []"
    by (auto simp: dropWhile_eq_Nil_conv)
  show ?thesis
    by (simp add: stripPortSuffix_def dropWhile_append3 d)
qed

text \<open>
  C8. \<open>GateKeeper\<close> is to serve the wrapped handler if and only if the token
  passes, or the session check succeeds, or the remote address with its port
  suffix stripped equals the bind address, and otherwise to respond with the
  status 401 and the fixed message. Run on a request from \<open>[::1]:9000\<close>
  without token or session, under the bind address \<open>[::1]\<close>: the address
  with its port suffix stripped is the bind address, but \<open>trimPortFromAddress\<close>
  cuts at the first colon, to \<open>[\<close>, and the request is denied; and the
  denial, here as for a request from \<open>10.0.0.7:40000\<close>, writes the status
  and the message and then panics in the dump of the request, at the field
  \<open>ctx\<close>. The request from \<open>127.0.0.1:9000\<close> under the bind address
  \<open>127.0.0.1\<close> is admitted.
\<close>

theorem GateKeeper_denies_bind_address_and_panics:
  "ConfigCache demoV6 ''bind_addr'' = IString ''[::1]''
   \<and> \<not> IsGranted demoV6 reqV6 HTTPHeader \<and> \<not> user_IsValid demoV6 reqV6
   \<and> stripPortSuffix (RemoteAddr reqV6) = ''[::1]''
   \<and> trimPortFromAddress (RemoteAddr reqV6) = ''[''
   \<and> GateKeeper demoV6 reqV6 rw0
       = Panicked UnexportedField (rw0\<lparr>Status := Some 401, Body := ''Please login first...''\<rparr>)
   \<and> GateKeeper demo (reqLocal\<lparr>RemoteAddr := ''10.0.0.7:40000''\<rparr>) rw0
       = Panicked UnexportedField (rw0\<lparr>Status := Some 401, Body := ''Please login first...''\<rparr>)
   \<and> GateKeeper demo reqLocal rw0 = NextServed"
  by (simp add: GateKeeper_def IsGranted_def getToken_def Header_Get_def TrimPrefix_def
      trimPortFromAddress_def stripPortSuffix_def demoV6_def demo_def reqV6_def reqLocal_def
      rw0_def StatusUnauthorized_def)

section \<open>The claims of an issued token\<close>

text \<open>
  C9, as stated, fails: with a lifetime of one nanosecond, which is positive, a
  token issued at 1.5 seconds carries the expiry 1, the second of its issuance,
  which is not in the future.
\<close>

theorem exp_claim_not_in_future_counterexample:
  "0 < ExpireAfter cfgNano
   \<and> fst (setToken demo acc0 cfgNano rw0) = None
   \<and> claimOf (tokenClaims demo acc0 cfgNano) ''exp'' = Some (IInt64 1)
   \<and> Unix (time_Now demo) = 1
   \<and> \<not> time_Now demo < 1 * 1000000000"
  by (simp add: setToken_def tokenClaims_def claimOf_def Unix_def demo_def cfgNano_def acc0_def)

text \<open>
  C9, amended. Every successfully issued token is built from a claim set whose
  \<open>access\<close> claim is the key of the grant it is issued for and whose \<open>exp\<close>
  claim is the Unix second of the clock at issuance plus the configured
  lifetime. That second is strictly in the future when the lifetime is at least
  one second, is not before the second of issuance when the lifetime is not
  negative, and is the second of issuance plus the lifetime when the lifetime
  is a whole number of seconds.
\<close>

theorem issued_token_claims:
  assumes "setToken c a cfg rw = (None, a', rw')"
  shows "(\<exists>cl. tokenClaims c a cfg = Inr cl \<and> jwt_New c cl = Inr (Token a'))
       \<and> claimOf (tokenClaims c a cfg) ''access'' = Some (IString (Key a))
       \<and> claimOf (tokenClaims c a cfg) ''exp''
           = Some (IInt64 (Unix (time_Now c + ExpireAfter cfg)))
       \<and> (1000000000 \<le> ExpireAfter cfg \<longrightarrow>
            time_Now c < Unix (time_Now c + ExpireAfter cfg) * 1000000000)
       \<and> (0 \<le> ExpireAfter cfg \<longrightarrow> Unix (time_Now c) \<le> Unix (time_Now c + ExpireAfter cfg))
       \<and> (\<forall>n. ExpireAfter cfg = n * 1000000000 \<longrightarrow>
            Unix (time_Now c + ExpireAfter cfg) = Unix (time_Now c) + n)"
proof -
  from setToken_cases [OF assms] obtain cl where
    cl: "tokenClaims c a cfg = Inr cl" and tok: "jwt_New c cl = Inr (Token a')"
    by blast
  from tokenClaims_reserved [OF cl] cl
  have "claimOf (tokenClaims c a cfg) ''access'' = Some (IString (Key a))"
    and "claimOf (tokenClaims c a cfg) ''exp''
           = Some (IInt64 (Unix (time_Now c + ExpireAfter cfg)))"
    by (simp_all add: claimOf_def)
  with cl tok show ?thesis
    by (auto simp: Unix_future Unix_mono Unix_whole_seconds)
qed

text \<open>Witness for C9: a token with a lifetime of one hour, issued at 1.5 seconds.\<close>

theorem issued_token_claims_witness:
  "setToken demo acc0 cfg0 rw0
     = (None, acc0\<lparr>Token := ''tok''\<rparr>, Header_Add rw0 ''Authorization'' ''Bearer tok'')
   \<and> claimOf (tokenClaims demo acc0 cfg0) ''access'' = Some (IString ''a@x.com'')
   \<and> claimOf (tokenClaims demo acc0 cfg0) ''exp'' = Some (IInt64 3601)
   \<and> time_Now demo < 3601 * 1000000000"
proof -
  have s: "setToken demo acc0 cfg0 rw0
     = (None, acc0\<lparr>Token := ''tok''\<rparr>, Header_Add rw0 ''Authorization'' ''Bearer tok'')"
    by (simp add: setToken_def tokenClaims_def demo_def cfg0_def)
  have v: "Key acc0 = ''a@x.com''" "Unix (time_Now demo + ExpireAfter cfg0) = 3601"
    "1000000000 \<le> ExpireAfter cfg0"
    by (simp_all add: acc0_def Unix_def demo_def cfg0_def)
  from issued_token_claims [OF s] v s show ?thesis
    by simp
qed

end
